theory Spec2Isabelle
  imports Complex_Main "HOL-Library.Sublist"
begin

section \<open>The highway driving environment (highway\_env/envs/highway\_env.py)\<close>

text \<open>
  A shallow embedding of class \<open>HighwayEnv\<close>. The object's attributes (\<open>config\<close>,
  \<open>steps\<close>, \<open>road\<close>, \<open>vehicle\<close>, \<open>np_random\<close>) form a record that every method takes
  and returns; a method that can raise returns the exception as \<open>Inl\<close> together with the
  attributes as they are at the moment of the raise, so that what a failed call has already
  mutated stays visible.

  Conventions of the embedding:
  \<^item> Python \<open>int\<close> is \<open>int\<close>; Python \<open>float\<close> is idealised as \<open>real\<close> (exact arithmetic,
    no rounding, no infinities or NaN).
  \<^item> Configuration values are the Python values the source stores in its dictionaries:
    integers, floats, strings and lists.
  \<^item> Lane and speed indices are Python integers, so \<open>/\<close> by zero raises.
  \<^item> The classes the module imports (\<open>Road\<close>, \<open>RoadNetwork\<close>, \<open>MDPVehicle\<close>,
    \<open>AbstractEnv\<close>, \<open>utils\<close>) are collaborators: what the source calls on them is a field
    of the record \<open>collaborators\<close>, a parameter of every method that needs it.
  \<^item> Method names lose their leading underscore (\<open>_reward\<close> is \<open>reward\<close>).
\<close>

subsection \<open>Values, exceptions and the object state\<close>

datatype pyval = PInt int | PFloat real | PStr string | PList "pyval list"

datatype error =
    KeyError pyval
  | ValueError string
  | TypeError
  | ZeroDivisionError
  | ImportError

text \<open>A lane descriptor \<open>(from, to, id)\<close>; the third component is the lane-within-segment index.\<close>

type_synonym lane_index = "string \<times> string \<times> int"

record vehicle =
  lane_index :: lane_index
  target_lane_index :: lane_index
  velocity_index :: int
  crashed :: bool

record 'net road =
  network :: 'net
  vehicles :: "vehicle list"

record ('net, 'rng) env =
  config :: "string \<rightharpoonup> pyval"
  steps :: int
  road :: "'net road"
  vehicle :: vehicle
  np_random :: 'rng

text \<open>
  A vehicle class as the source uses it: its \<open>create_random(road)\<close> factory, which reads the
  road and draws from the shared random source.
\<close>

type_synonym ('net, 'rng) vehicle_class = "'net road \<Rightarrow> 'rng \<Rightarrow> vehicle \<times> 'rng"

record ('net, 'rng, 'obs) collaborators =
  straight_road_network :: "pyval \<Rightarrow> 'net"
    \<comment> \<open>\<open>RoadNetwork.straight_road_network(lanes)\<close>\<close>
  all_side_lanes :: "'net \<Rightarrow> lane_index \<Rightarrow> lane_index list"
    \<comment> \<open>\<open>road.network.all_side_lanes(lane_index)\<close>\<close>
  SPEED_COUNT :: int
    \<comment> \<open>\<open>MDPVehicle.SPEED_COUNT\<close>\<close>
  mdp_create_random :: "'net road \<Rightarrow> 'rng \<Rightarrow> int \<Rightarrow> pyval \<Rightarrow> vehicle \<times> 'rng"
    \<comment> \<open>\<open>MDPVehicle.create_random(road, velocity, spacing=...)\<close>\<close>
  class_from_path :: "pyval \<Rightarrow> error + ('net, 'rng) vehicle_class"
    \<comment> \<open>\<open>utils.class_from_path(path)\<close>; \<open>Inl\<close> when the reference does not resolve\<close>
  simulate :: "int \<Rightarrow> 'net road \<Rightarrow> vehicle \<Rightarrow> 'rng \<Rightarrow> 'net road \<times> vehicle \<times> 'rng"
    \<comment> \<open>the world advance of \<open>AbstractEnv.step\<close>: acts on road, vehicle and random source\<close>
  observation :: "('net, 'rng) env \<Rightarrow> 'obs"
    \<comment> \<open>\<open>AbstractEnv._observation()\<close>\<close>

subsection \<open>Class constants\<close>

definition COLLISION_REWARD :: int where
  "COLLISION_REWARD = - 1"

definition RIGHT_LANE_REWARD :: real where
  "RIGHT_LANE_REWARD = 0.1"

definition HIGH_VELOCITY_REWARD :: real where
  "HIGH_VELOCITY_REWARD = 0.4"

definition LANE_CHANGE_REWARD :: int where
  "LANE_CHANGE_REWARD = - 0"

definition level_profile :: "int \<Rightarrow> int \<Rightarrow> int \<Rightarrow> int \<Rightarrow> (string \<times> pyval) list" where
  "level_profile lanes spacing count duration =
     [(''lanes_count'', PInt lanes),
      (''initial_spacing'', PInt spacing),
      (''vehicles_count'', PInt count),
      (''duration'', PInt duration),
      (''other_vehicles_type'', PStr ''highway_env.vehicle.behavior.IDMVehicle''),
      (''centering_position'', PList [PFloat 0.3, PFloat 0.5]),
      (''collision_reward'', PInt COLLISION_REWARD)]"

definition DIFFICULTY_LEVELS :: "(string \<times> (string \<times> pyval) list) list" where
  "DIFFICULTY_LEVELS =
     [(''EASY'', level_profile 2 2 5 20),
      (''MEDIUM'', level_profile 3 2 10 30),
      (''HARD'', level_profile 4 3 50 40)]"

subsection \<open>Helpers for Python's operators\<close>

text \<open>The numeric reading of a value; \<open>None\<close> where Python's arithmetic raises \<open>TypeError\<close>.\<close>

fun py_num :: "pyval \<Rightarrow> real option" where
  "py_num (PInt i) = Some (of_int i)"
| "py_num (PFloat r) = Some r"
| "py_num (PStr s) = None"
| "py_num (PList l) = None"

text \<open>True division: raises on a zero divisor.\<close>

definition py_truediv :: "real \<Rightarrow> real \<Rightarrow> error + real" where
  "py_truediv a b = (if b = 0 then Inl ZeroDivisionError else Inr (a / b))"

text \<open>
  Modelled from the spec: \<open>utils.remap\<close>, which is not among the sources. The spec calls it
  the affine map that sends the lower end of the source interval to the lower end of the
  target interval and the upper end to the upper end, without clamping. An empty source
  interval leaves no such map; the division then raises.
\<close>

definition remap :: "real \<Rightarrow> real \<times> real \<Rightarrow> real \<times> real \<Rightarrow> error + real" where
  "remap v x y =
     (case py_truediv ((v - fst x) * (snd y - fst y)) (snd x - fst x) of
        Inl e \<Rightarrow> Inl e
      | Inr q \<Rightarrow> Inr (fst y + q))"

subsection \<open>Reward, terminal predicate and constraint signal\<close>

text \<open>The dictionary literal of \<open>_reward\<close>.\<close>

definition action_reward :: "int \<rightharpoonup> int" where
  "action_reward =
     [0 \<mapsto> LANE_CHANGE_REWARD, 1 \<mapsto> 0, 2 \<mapsto> LANE_CHANGE_REWARD, 3 \<mapsto> 0, 4 \<mapsto> 0]"

text \<open>
  The three summands of \<open>state_reward\<close>, in the order Python evaluates them: the collision
  term (the key is looked up, then unary plus and the product with the flag), the lane term,
  the speed term.
\<close>

definition collision_term :: "('net, 'rng) env \<Rightarrow> error + real" where
  "collision_term e =
     (case config e ''collision_reward'' of
        None \<Rightarrow> Inl (KeyError (PStr ''collision_reward''))
      | Some v \<Rightarrow>
          (case py_num v of
             None \<Rightarrow> Inl TypeError
           | Some c \<Rightarrow> Inr (c * of_bool (crashed (vehicle e)))))"

definition lane_term :: "('net, 'rng, 'obs) collaborators \<Rightarrow> ('net, 'rng) env \<Rightarrow> error + real" where
  "lane_term c e =
     (let neighbours = all_side_lanes c (network (road e)) (lane_index (vehicle e))
      in py_truediv
           (RIGHT_LANE_REWARD * of_int (snd (snd (target_lane_index (vehicle e)))))
           (of_int (int (length neighbours) - 1)))"

definition speed_term :: "('net, 'rng, 'obs) collaborators \<Rightarrow> ('net, 'rng) env \<Rightarrow> error + real" where
  "speed_term c e =
     py_truediv
       (HIGH_VELOCITY_REWARD * of_int (velocity_index (vehicle e)))
       (of_int (SPEED_COUNT c - 1))"

definition state_reward :: "('net, 'rng, 'obs) collaborators \<Rightarrow> ('net, 'rng) env \<Rightarrow> error + real" where
  "state_reward c e =
     (case collision_term e of
        Inl err \<Rightarrow> Inl err
      | Inr col \<Rightarrow>
          (case lane_term c e of
             Inl err \<Rightarrow> Inl err
           | Inr lane \<Rightarrow>
               (case speed_term c e of
                  Inl err \<Rightarrow> Inl err
                | Inr speed \<Rightarrow> Inr (col + lane + speed))))"

definition reward :: "('net, 'rng, 'obs) collaborators \<Rightarrow> int \<Rightarrow> ('net, 'rng) env \<Rightarrow> error + real" where
  "reward c action e =
     (case state_reward c e of
        Inl err \<Rightarrow> Inl err
      | Inr sr \<Rightarrow>
          (case action_reward action of
             None \<Rightarrow> Inl (KeyError (PInt action))
           | Some ar \<Rightarrow>
               (case config e ''collision_reward'' of
                  None \<Rightarrow> Inl (KeyError (PStr ''collision_reward''))
                | Some v \<Rightarrow>
                    (case py_num v of
                       None \<Rightarrow> Inl TypeError
                     | Some lo \<Rightarrow>
                         remap (of_int ar + sr)
                           (lo, HIGH_VELOCITY_REWARD + RIGHT_LANE_REWARD) (0, 1)))))"

text \<open>
  \<open>crashed or steps >= duration\<close>: the right operand, and with it the lookup of the duration,
  is evaluated only when the flag is false.
\<close>

definition is_terminal :: "('net, 'rng) env \<Rightarrow> error + bool" where
  "is_terminal e =
     (if crashed (vehicle e) then Inr True
      else (case config e ''duration'' of
              None \<Rightarrow> Inl (KeyError (PStr ''duration''))
            | Some v \<Rightarrow>
                (case py_num v of
                   None \<Rightarrow> Inl TypeError
                 | Some d \<Rightarrow> Inr (d \<le> of_int (steps e)))))"

text \<open>\<open>float(self.vehicle.crashed)\<close>: the conversion of a Python \<open>bool\<close>.\<close>

definition constraint :: "int \<Rightarrow> ('net, 'rng) env \<Rightarrow> real" where
  "constraint action e = of_bool (crashed (vehicle e))"

subsection \<open>Building the world\<close>

text \<open>
  Modelled from the spec: the constructor \<open>Road(network, np_random)\<close>, which is not among the
  sources. The spec has the factory populate the road with one controlled agent plus the
  configured number of autonomous agents, so a new road holds no vehicle. The random source
  it is given is the environment's own object, kept in \<open>np_random\<close> of the environment.
\<close>

definition Road :: "'net \<Rightarrow> 'net road" where
  "Road n = \<lparr>network = n, vehicles = []\<rparr>"

definition create_road ::
  "('net, 'rng, 'obs) collaborators \<Rightarrow> ('net, 'rng) env \<Rightarrow> (error + unit) \<times> ('net, 'rng) env" where
  "create_road c e =
     (case config e ''lanes_count'' of
        None \<Rightarrow> (Inl (KeyError (PStr ''lanes_count'')), e)
      | Some lanes \<Rightarrow> (Inr (), e\<lparr>road := Road (straight_road_network c lanes)\<rparr>))"

text \<open>
  The loop \<open>for _ in range(n): self.road.vehicles.append(vehicles_type.create_random(self.road))\<close>:
  each new vehicle is placed on the road as the earlier iterations left it.
\<close>

fun append_random ::
  "('net, 'rng) vehicle_class \<Rightarrow> nat \<Rightarrow> 'net road \<Rightarrow> 'rng \<Rightarrow> 'net road \<times> 'rng" where
  "append_random vehicles_type 0 r g = (r, g)"
| "append_random vehicles_type (Suc n) r g =
     (case vehicles_type r g of
        (v, g') \<Rightarrow> append_random vehicles_type n (r\<lparr>vehicles := vehicles r @ [v]\<rparr>) g')"

definition create_vehicles ::
  "('net, 'rng, 'obs) collaborators \<Rightarrow> ('net, 'rng) env \<Rightarrow> (error + unit) \<times> ('net, 'rng) env" where
  "create_vehicles c e =
     (case config e ''initial_spacing'' of
        None \<Rightarrow> (Inl (KeyError (PStr ''initial_spacing'')), e)
      | Some spacing \<Rightarrow>
          (case mdp_create_random c (road e) (np_random e) 25 spacing of
             (ego, g) \<Rightarrow>
               let e1 = e\<lparr>vehicle := ego, np_random := g,
                           road := (road e)\<lparr>vehicles := vehicles (road e) @ [ego]\<rparr>\<rparr>
               in (case config e1 ''other_vehicles_type'' of
                     None \<Rightarrow> (Inl (KeyError (PStr ''other_vehicles_type'')), e1)
                   | Some path \<Rightarrow>
                       (case class_from_path c path of
                          Inl err \<Rightarrow> (Inl err, e1)
                        | Inr vehicles_type \<Rightarrow>
                            (case config e1 ''vehicles_count'' of
                               None \<Rightarrow> (Inl (KeyError (PStr ''vehicles_count'')), e1)
                             | Some (PInt n) \<Rightarrow>
                                 (case append_random vehicles_type (nat n) (road e1) (np_random e1) of
                                    (r, g') \<Rightarrow> (Inr (), e1\<lparr>road := r, np_random := g'\<rparr>))
                             | Some _ \<Rightarrow> (Inl TypeError, e1))))))"

subsection \<open>Episode control\<close>

definition reset ::
  "('net, 'rng, 'obs) collaborators \<Rightarrow> ('net, 'rng) env \<Rightarrow> (error + 'obs) \<times> ('net, 'rng) env" where
  "reset c e =
     (case create_road c e of
        (Inl err, e1) \<Rightarrow> (Inl err, e1)
      | (Inr _, e1) \<Rightarrow>
          (case create_vehicles c e1 of
             (Inl err, e2) \<Rightarrow> (Inl err, e2)
           | (Inr _, e2) \<Rightarrow>
               let e3 = e2\<lparr>steps := 0\<rparr> in (Inr (observation c e3), e3)))"

text \<open>
  Modelled from the spec: \<open>AbstractEnv.step\<close>, which is not among the sources. The spec has
  it advance the world by one control interval, compute the reward, evaluate the terminal
  predicate and the constraint signal, and return them with the observation.
\<close>

definition abstract_step ::
  "('net, 'rng, 'obs) collaborators \<Rightarrow> int \<Rightarrow> ('net, 'rng) env \<Rightarrow>
     (error + 'obs \<times> real \<times> bool \<times> real) \<times> ('net, 'rng) env" where
  "abstract_step c action e =
     (case simulate c action (road e) (vehicle e) (np_random e) of
        (r, v, g) \<Rightarrow>
          let e1 = e\<lparr>road := r, vehicle := v, np_random := g\<rparr>
          in (case reward c action e1 of
                Inl err \<Rightarrow> (Inl err, e1)
              | Inr rew \<Rightarrow>
                  (case is_terminal e1 of
                     Inl err \<Rightarrow> (Inl err, e1)
                   | Inr terminal \<Rightarrow>
                       (Inr (observation c e1, rew, terminal, constraint action e1), e1))))"

definition step ::
  "('net, 'rng, 'obs) collaborators \<Rightarrow> int \<Rightarrow> ('net, 'rng) env \<Rightarrow>
     (error + 'obs \<times> real \<times> bool \<times> real) \<times> ('net, 'rng) env" where
  "step c action e = abstract_step c action (e\<lparr>steps := steps e + 1\<rparr>)"


subsection \<open>Configuration\<close>

text \<open>
  \<open>str(self.DIFFICULTY_LEVELS.keys())\<close> as Python 3 prints it; the names hold no character
  that \<open>repr\<close> would escape.
\<close>

definition py_repr :: "string \<Rightarrow> string" where
  "py_repr s = [CHR 0x27] @ s @ [CHR 0x27]"

fun comma_join :: "string list \<Rightarrow> string" where
  "comma_join [] = []"
| "comma_join [s] = s"
| "comma_join (s # t # ss) = s @ '', '' @ comma_join (t # ss)"

definition str_keys :: "string list \<Rightarrow> string" where
  "str_keys ks = ''dict_keys(['' @ comma_join (map py_repr ks) @ ''])''"

definition invalid_level_message :: string where
  "invalid_level_message =
     ''Invalid difficulty level, choose among '' @ str_keys (map fst DIFFICULTY_LEVELS)"

text \<open>
  The log line of the valid branch writes to the logger only and is left out; the value
  \<open>reset\<close> returns is dropped, as in the source.
\<close>

definition set_difficulty_level ::
  "('net, 'rng, 'obs) collaborators \<Rightarrow> string \<Rightarrow> ('net, 'rng) env \<Rightarrow>
     (error + unit) \<times> ('net, 'rng) env" where
  "set_difficulty_level c level e =
     (case map_of DIFFICULTY_LEVELS level of
        Some profile \<Rightarrow>
          (case reset c (e\<lparr>config := config e ++ map_of profile\<rparr>) of
             (Inl err, e1) \<Rightarrow> (Inl err, e1)
           | (Inr _, e1) \<Rightarrow> (Inr (), e1))
      | None \<Rightarrow> (Inl (ValueError invalid_level_message), e))"

text \<open>\<open>self.config.update(config)\<close> with a mapping: it cannot raise.\<close>

definition configure :: "(string \<rightharpoonup> pyval) \<Rightarrow> ('net, 'rng) env \<Rightarrow> ('net, 'rng) env" where
  "configure overrides e = e\<lparr>config := config e ++ overrides\<rparr>"

subsection \<open>A small world to run the methods on\<close>

text \<open>
  Collaborators simple enough to evaluate: a network is its number of lanes, the random
  source a counter, the speed levels three, and only the shipped behaviour type resolves.
\<close>

definition toy_ego :: vehicle where
  "toy_ego = \<lparr>lane_index = (''0'', ''1'', 0), target_lane_index = (''0'', ''1'', 0),
               velocity_index = 1, crashed = False\<rparr>"

definition toy_other :: vehicle where
  "toy_other = \<lparr>lane_index = (''0'', ''1'', 0), target_lane_index = (''0'', ''1'', 0),
                 velocity_index = 0, crashed = False\<rparr>"

definition toy_collaborators :: "(nat, nat, unit) collaborators" where
  "toy_collaborators =
     \<lparr>straight_road_network = (\<lambda>v. case v of PInt n \<Rightarrow> nat n | _ \<Rightarrow> 0),
      all_side_lanes = (\<lambda>n i. map (\<lambda>k. (fst i, fst (snd i), int k)) [0..<n]),
      SPEED_COUNT = 3,
      mdp_create_random = (\<lambda>r g velocity spacing. (toy_ego, Suc g)),
      class_from_path =
        (\<lambda>p. if p = PStr ''highway_env.vehicle.behavior.IDMVehicle''
              then Inr (\<lambda>r g. (toy_other, Suc g)) else Inl ImportError),
      simulate = (\<lambda>a r v g. (r, v, g)),
      observation = (\<lambda>e. ())\<rparr>"

text \<open>The controlled agent alone on a two-lane road, heading for the right lane, EASY settings.\<close>

definition toy_env :: "(nat, nat) env" where
  "toy_env =
     \<lparr>config = map_of (level_profile 2 2 5 20),
      steps = 0,
      road = \<lparr>network = 2, vehicles = [toy_ego\<lparr>target_lane_index := (''0'', ''1'', 1)\<rparr>]\<rparr>,
      vehicle = toy_ego\<lparr>target_lane_index := (''0'', ''1'', 1)\<rparr>,
      np_random = 0\<rparr>"

text \<open>
  The same world after \<open>configure({"lanes_count": 1})\<close> and \<open>reset()\<close>: a road of one lane,
  with the controlled agent and five others on lane 0.
\<close>

definition single_lane_env :: "(nat, nat) env" where
  "single_lane_env =
     snd (reset toy_collaborators (configure [''lanes_count'' \<mapsto> PInt 1] toy_env))"

text \<open>A configuration whose collision reward is positive, and one whose behaviour type is unknown.\<close>

definition positive_collision_env :: "(nat, nat) env" where
  "positive_collision_env = configure [''collision_reward'' \<mapsto> PInt 1] toy_env"

definition unknown_type_env :: "(nat, nat) env" where
  "unknown_type_env = configure [''other_vehicles_type'' \<mapsto> PStr ''no.such.Type''] toy_env"


section \<open>Properties\<close>

lemmas toy_defs =
  toy_env_def toy_collaborators_def toy_ego_def toy_other_def level_profile_def
  COLLISION_REWARD_def

lemmas reward_defs =
  reward_def state_reward_def collision_term_def lane_term_def speed_term_def
  py_truediv_def remap_def action_reward_def RIGHT_LANE_REWARD_def HIGH_VELOCITY_REWARD_def

lemmas build_defs =
  configure_def reset_def create_road_def create_vehicles_def Road_def

subsection \<open>The action table\<close>

lemma action_reward_dom: "action_reward a \<noteq> None \<longleftrightarrow> a \<in> {0, 1, 2, 3, 4}"
  by (simp add: action_reward_def)

lemma action_reward_zero: "action_reward a = Some r \<Longrightarrow> r = 0"
  by (auto simp: action_reward_def LANE_CHANGE_REWARD_def split: if_splits)

lemma action_reward_hold: "a \<in> {1, 3, 4} \<Longrightarrow> action_reward a = Some 0"
  by (auto simp: action_reward_def)

lemma action_reward_known: "a \<in> {0, 1, 2, 3, 4} \<Longrightarrow> action_reward a = Some 0"
  using action_reward_dom [of a] action_reward_zero [of a] by (cases "action_reward a") auto

subsection \<open>The reward\<close>

text \<open>
  C1. An agent that has not crashed, with lane index \<open>L\<close> and speed index \<open>S\<close>, on a road
  whose side-lane query returns \<open>N > 1\<close> lanes, taking one of the actions 1, 3, 4 (the
  actions that change no lane): the reward is the remap of
  \<open>RIGHT_LANE_REWARD * L / (N - 1) + HIGH_VELOCITY_REWARD * S / (SPEED_COUNT - 1)\<close> from
  \<open>[collision_reward, RIGHT_LANE_REWARD + HIGH_VELOCITY_REWARD]\<close> onto \<open>[0, 1]\<close>. The speed
  levels are more than one, as the quotient of the claim needs, and the configured
  collision reward is a number.
\<close>

theorem reward_hold_action:
  assumes "\<not> crashed (vehicle e)"
    and "length (all_side_lanes c (network (road e)) (lane_index (vehicle e))) = N"
    and "1 < N"
    and "SPEED_COUNT c \<noteq> 1"
    and "target_lane_index (vehicle e) = (f, t, L)"
    and "velocity_index (vehicle e) = S"
    and "config e ''collision_reward'' = Some v"
    and "py_num v = Some collision_reward"
    and "a \<in> {1, 3, 4}"
  shows "reward c a e =
           remap (RIGHT_LANE_REWARD * of_int L / of_int (int N - 1)
                  + HIGH_VELOCITY_REWARD * of_int S / of_int (SPEED_COUNT c - 1))
             (collision_reward, RIGHT_LANE_REWARD + HIGH_VELOCITY_REWARD) (0, 1)"
proof -
  have col: "collision_term e = Inr 0"
    using assms by (simp add: collision_term_def)
  have lane: "lane_term c e = Inr (RIGHT_LANE_REWARD * of_int L / of_int (int N - 1))"
    using assms by (simp add: lane_term_def py_truediv_def)
  have speed:
    "speed_term c e = Inr (HIGH_VELOCITY_REWARD * of_int S / of_int (SPEED_COUNT c - 1))"
    using assms by (simp add: speed_term_def py_truediv_def)
  have "state_reward c e =
          Inr (RIGHT_LANE_REWARD * of_int L / of_int (int N - 1)
               + HIGH_VELOCITY_REWARD * of_int S / of_int (SPEED_COUNT c - 1))"
    by (simp add: state_reward_def col lane speed)
  moreover have "action_reward a = Some 0"
    using assms(9) by (rule action_reward_hold)
  ultimately show ?thesis
    using assms by (simp add: reward_def add.commute)
qed

theorem reward_hold_action_witness:
  "\<not> crashed (vehicle toy_env)
   \<and> length (all_side_lanes toy_collaborators (network (road toy_env))
               (lane_index (vehicle toy_env))) = 2
   \<and> (1::nat) < 2
   \<and> SPEED_COUNT toy_collaborators \<noteq> 1
   \<and> target_lane_index (vehicle toy_env) = (''0'', ''1'', 1)
   \<and> velocity_index (vehicle toy_env) = 1
   \<and> config toy_env ''collision_reward'' = Some (PInt (- 1))
   \<and> py_num (PInt (- 1)) = Some (- 1)
   \<and> (3::int) \<in> {1, 3, 4}
   \<and> reward toy_collaborators 3 toy_env =
       remap (RIGHT_LANE_REWARD * of_int 1 / of_int (int 2 - 1)
              + HIGH_VELOCITY_REWARD * of_int 1 / of_int (SPEED_COUNT toy_collaborators - 1))
         (- 1, RIGHT_LANE_REWARD + HIGH_VELOCITY_REWARD) (0, 1)
   \<and> reward toy_collaborators 3 toy_env = Inr (13 / 15)"
  using reward_hold_action [of toy_env toy_collaborators 2 "''0''" "''1''" 1 1 "PInt (- 1)" "- 1" 3]
  by (simp add: toy_defs remap_def py_truediv_def RIGHT_LANE_REWARD_def HIGH_VELOCITY_REWARD_def)

text \<open>
  C2. On a single-lane road the claim has the lane term defined as 0 and the reward
  computed without a division fault. The source divides by \<open>len(neighbours) - 1\<close>
  unguarded: on the one-lane road reached by \<open>configure({"lanes_count": 1})\<close> and
  \<open>reset()\<close>, the reset succeeds, the lane term raises \<open>ZeroDivisionError\<close> and so does the
  reward.
\<close>

theorem reward_single_lane_fault:
  "fst (reset toy_collaborators (configure [''lanes_count'' \<mapsto> PInt 1] toy_env)) = Inr ()
   \<and> length (all_side_lanes toy_collaborators (network (road single_lane_env))
               (lane_index (vehicle single_lane_env))) = 1
   \<and> target_lane_index (vehicle single_lane_env) = (''0'', ''1'', 0)
   \<and> lane_term toy_collaborators single_lane_env = Inl ZeroDivisionError
   \<and> reward toy_collaborators 1 single_lane_env = Inl ZeroDivisionError"
  by (simp add: single_lane_env_def toy_defs build_defs eval_nat_numeral reward_defs)

text \<open>
  C3 (amended). For every action of the table, a configured collision reward that is a
  number not above 0, a road of \<open>N > 1\<close> side lanes, a lane index between 0 and \<open>N - 1\<close>,
  more than one speed level and a speed index between 0 and \<open>SPEED_COUNT - 1\<close>, the
  reward is returned and lies in \<open>[0, 1]\<close>.
\<close>

theorem reward_in_unit_interval:
  assumes "a \<in> {0, 1, 2, 3, 4}"
    and "config e ''collision_reward'' = Some v"
    and "py_num v = Some collision_reward"
    and "collision_reward \<le> 0"
    and "length (all_side_lanes c (network (road e)) (lane_index (vehicle e))) = N"
    and "1 < N"
    and "target_lane_index (vehicle e) = (f, t, L)"
    and "0 \<le> L" and "L \<le> int N - 1"
    and "1 < SPEED_COUNT c"
    and "0 \<le> velocity_index (vehicle e)"
    and "velocity_index (vehicle e) \<le> SPEED_COUNT c - 1"
  shows "\<exists>r. reward c a e = Inr r \<and> 0 \<le> r \<and> r \<le> 1"
proof -
  define lane where "lane = RIGHT_LANE_REWARD * of_int L / of_int (int N - 1)"
  define speed where
    "speed = HIGH_VELOCITY_REWARD * of_int (velocity_index (vehicle e))
               / of_int (SPEED_COUNT c - 1)"
  define col where "col = collision_reward * of_bool (crashed (vehicle e))"
  have lane_bounds: "0 \<le> lane" "lane \<le> 1 / 10"
    using assms by (simp_all add: lane_def RIGHT_LANE_REWARD_def field_simps)
  have speed_bounds: "0 \<le> speed" "speed \<le> 4 / 10"
    using assms by (simp_all add: speed_def HIGH_VELOCITY_REWARD_def field_simps)
  have col_bounds: "collision_reward \<le> col" "col \<le> 0"
    using assms by (simp_all add: col_def)
  have sr: "state_reward c e = Inr (col + lane + speed)"
    using assms
    by (simp add: state_reward_def collision_term_def lane_term_def speed_term_def
        py_truediv_def lane_def speed_def col_def)
  have ar: "action_reward a = Some 0"
    using assms(1) by (rule action_reward_known)
  have pos: "0 < 1 / 2 - collision_reward"
    using assms by simp
  have rew: "reward c a e =
      Inr ((col + lane + speed - collision_reward) / (1 / 2 - collision_reward))"
    using assms pos
    by (simp add: reward_def sr ar remap_def py_truediv_def
        HIGH_VELOCITY_REWARD_def RIGHT_LANE_REWARD_def)
  have "0 \<le> col + lane + speed - collision_reward"
    using lane_bounds speed_bounds col_bounds by linarith
  moreover have "col + lane + speed - collision_reward \<le> 1 / 2 - collision_reward"
    using lane_bounds speed_bounds col_bounds by linarith
  ultimately show ?thesis
    using pos by (simp add: rew)
qed

theorem reward_in_unit_interval_witness:
  "(2::int) \<in> {0, 1, 2, 3, 4}
   \<and> config toy_env ''collision_reward'' = Some (PInt (- 1))
   \<and> py_num (PInt (- 1)) = Some (- 1)
   \<and> (- 1::real) \<le> 0
   \<and> length (all_side_lanes toy_collaborators (network (road toy_env))
               (lane_index (vehicle toy_env))) = 2
   \<and> (1::nat) < 2
   \<and> target_lane_index (vehicle toy_env) = (''0'', ''1'', 1)
   \<and> (0::int) \<le> 1 \<and> (1::int) \<le> int 2 - 1
   \<and> 1 < SPEED_COUNT toy_collaborators
   \<and> 0 \<le> velocity_index (vehicle toy_env)
   \<and> velocity_index (vehicle toy_env) \<le> SPEED_COUNT toy_collaborators - 1
   \<and> (\<exists>r. reward toy_collaborators 2 toy_env = Inr r \<and> 0 \<le> r \<and> r \<le> 1)"
  using reward_in_unit_interval
    [of 2 toy_env "PInt (- 1)" "- 1" toy_collaborators 2 "''0''" "''1''" 1]
  by (simp add: toy_defs)

text \<open>
  C3 as stated fails: with the collision reward configured to 1, the agent of the toy world
  (not crashed, on a two-lane road) receives 7/5 for action 1.
\<close>

theorem reward_outside_unit_interval:
  "reward toy_collaborators 1 positive_collision_env = Inr (7 / 5) \<and> \<not> (7 / 5 \<le> (1::real))"
  by (simp add: positive_collision_env_def toy_defs configure_def reward_defs)

text \<open>
  C9. For any two actions of \<open>{0, 1, 2, 3, 4}\<close> and the same state, road and configuration
  the reward is the same, a value or an exception: with \<open>LANE_CHANGE_REWARD = -0\<close> every
  entry of the action table is 0.
\<close>

theorem reward_action_independent:
  assumes "a \<in> {0, 1, 2, 3, 4}" and "b \<in> {0, 1, 2, 3, 4}"
  shows "reward c a e = reward c b e"
proof -
  have "action_reward a = Some 0" and "action_reward b = Some 0"
    using assms by (simp_all only: action_reward_known)
  then show ?thesis
    by (simp add: reward_def split: sum.splits)
qed

theorem reward_action_independent_witness:
  "(0::int) \<in> {0, 1, 2, 3, 4} \<and> (4::int) \<in> {0, 1, 2, 3, 4}
   \<and> reward toy_collaborators 0 toy_env = reward toy_collaborators 4 toy_env"
  using reward_action_independent [of 0 4 toy_collaborators toy_env]
  by simp

text \<open>
  C10 (amended). An action outside \<open>{0, 1, 2, 3, 4}\<close> never yields a reward. The state
  reward is computed before the action table is read: whenever it is computed without an
  exception, the exception for such an action is the \<open>KeyError\<close> of the table, raised
  before the remap. For every action of the set the lookup in the table succeeds.
\<close>

theorem reward_action_domain:
  "(a \<notin> {0, 1, 2, 3, 4} \<longrightarrow> (\<exists>err. reward c a e = Inl err))
   \<and> (a \<notin> {0, 1, 2, 3, 4} \<longrightarrow> (\<exists>sr. state_reward c e = Inr sr) \<longrightarrow>
        reward c a e = Inl (KeyError (PInt a)))
   \<and> (a \<in> {0, 1, 2, 3, 4} \<longrightarrow> (\<exists>ar. action_reward a = Some ar))"
proof (intro conjI impI)
  assume out: "a \<notin> {0, 1, 2, 3, 4}"
  then have none: "action_reward a = None"
    using action_reward_dom by blast
  then show "\<exists>err. reward c a e = Inl err"
    by (simp add: reward_def split: sum.splits)
  assume "\<exists>sr. state_reward c e = Inr sr"
  then show "reward c a e = Inl (KeyError (PInt a))"
    using none by (auto simp: reward_def)
next
  assume "a \<in> {0, 1, 2, 3, 4}"
  then show "\<exists>ar. action_reward a = Some ar"
    using action_reward_dom by blast
qed

theorem reward_action_domain_witness:
  "(7::int) \<notin> {0, 1, 2, 3, 4}
   \<and> state_reward toy_collaborators toy_env = Inr (3 / 10)
   \<and> reward toy_collaborators 7 toy_env = Inl (KeyError (PInt 7))
   \<and> (2::int) \<in> {0, 1, 2, 3, 4}
   \<and> (\<exists>ar. action_reward 2 = Some ar)"
proof -
  have sr: "state_reward toy_collaborators toy_env = Inr (3 / 10)"
    by (simp add: toy_defs reward_defs)
  then have ex: "\<exists>sr. state_reward toy_collaborators toy_env = Inr sr"
    by (rule exI)
  have out: "(7::int) \<notin> {0, 1, 2, 3, 4}" and inside: "(2::int) \<in> {0, 1, 2, 3, 4}"
    by simp_all
  have "reward toy_collaborators 7 toy_env = Inl (KeyError (PInt 7))"
    using reward_action_domain [of 7 toy_collaborators toy_env] out ex by blast
  moreover have "\<exists>ar. action_reward 2 = Some ar"
    using reward_action_domain [of 2 toy_collaborators toy_env] inside by blast
  ultimately show ?thesis
    using sr out inside by blast
qed

text \<open>
  C10 as stated fails: on the one-lane road the action 7, outside the table, makes the
  reward raise \<open>ZeroDivisionError\<close>, not the \<open>KeyError\<close> of the table.
\<close>

theorem reward_unknown_action_other_fault:
  "(7::int) \<notin> {0, 1, 2, 3, 4}
   \<and> reward toy_collaborators 7 single_lane_env = Inl ZeroDivisionError
   \<and> ZeroDivisionError \<noteq> KeyError (PInt 7)"
  by (simp add: single_lane_env_def toy_defs build_defs eval_nat_numeral reward_defs)

subsection \<open>Terminal predicate and constraint signal\<close>








text \<open>
  C5. For every action the constraint signal is 1 when the controlled agent's crashed flag
  is true and 0 otherwise; the signal a step returns is that of the state the step leaves.
\<close>

theorem constraint_is_crash_indicator:
  "constraint a e = (if crashed (vehicle e) then 1 else 0)
   \<and> (\<forall>obs r t k e'. step c a e = (Inr (obs, r, t, k), e') \<longrightarrow>
        k = (if crashed (vehicle e') then 1 else 0))"
  by (auto simp: constraint_def step_def abstract_step_def Let_def
      split: prod.splits sum.splits)

theorem constraint_is_crash_indicator_witness:
  "constraint 1 toy_env = 0
   \<and> step toy_collaborators 1 toy_env = (Inr ((), 13 / 15, False, 0), toy_env\<lparr>steps := 1\<rparr>)
   \<and> (0::real) = (if crashed (vehicle (toy_env\<lparr>steps := 1\<rparr>)) then 1 else 0)"
  using constraint_is_crash_indicator [of 1 toy_env toy_collaborators]
  by (simp add: step_def abstract_step_def toy_defs reward_defs is_terminal_def constraint_def)

subsection \<open>Configuration\<close>

lemma comma_join_Cons:
  "comma_join (s # ss) = s @ (if ss = [] then [] else '', '' @ comma_join ss)"
  by (cases ss) simp_all

lemma sublist_comma_join: "n \<in> set ks \<Longrightarrow> sublist n (comma_join (map py_repr ks))"
proof (induction ks)
  case Nil
  then show ?case by simp
next
  case (Cons k ks)
  show ?case
  proof (cases "n = k")
    case True
    have "comma_join (map py_repr (k # ks)) =
            [CHR 0x27] @ k
              @ ([CHR 0x27] @ (if ks = [] then [] else '', '' @ comma_join (map py_repr ks)))"
      by (simp add: comma_join_Cons py_repr_def)
    then show ?thesis
      using True by (metis sublist_appendI)
  next
    case False
    with Cons.prems have "n \<in> set ks" by simp
    then have "sublist n (comma_join (map py_repr ks))" and "ks \<noteq> []"
      using Cons.IH by auto
    moreover have "comma_join (map py_repr (k # ks)) =
        (py_repr k @ '', '') @ comma_join (map py_repr ks)"
      using \<open>ks \<noteq> []\<close> by (simp add: comma_join_Cons)
    ultimately show ?thesis
      by (metis sublist_append_leftI sublist_order.order_trans)
  qed
qed

lemma sublist_message:
  assumes "n \<in> set (map fst DIFFICULTY_LEVELS)"
  shows "sublist n invalid_level_message"
proof -
  have "sublist n (comma_join (map py_repr (map fst DIFFICULTY_LEVELS)))"
    using assms by (rule sublist_comma_join)
  then obtain ps ss where "comma_join (map py_repr (map fst DIFFICULTY_LEVELS)) = ps @ n @ ss"
    by (auto simp: sublist_def)
  then have "invalid_level_message =
      (''Invalid difficulty level, choose among '' @ ''dict_keys(['' @ ps) @ n @ (ss @ ''])'')"
    by (simp add: invalid_level_message_def str_keys_def)
  then show ?thesis
    by (metis sublist_appendI)
qed

text \<open>
  C6. For a name that is no key of \<open>DIFFICULTY_LEVELS\<close>, \<open>set_difficulty_level\<close> raises
  \<open>ValueError\<close> with a message in which every valid name occurs, and the object is as it
  was: configuration, road, vehicle, random source and step counter.
\<close>

theorem set_difficulty_level_unknown:
  assumes "level \<notin> set (map fst DIFFICULTY_LEVELS)"
  shows "set_difficulty_level c level e = (Inl (ValueError invalid_level_message), e)
       \<and> (\<forall>name \<in> set (map fst DIFFICULTY_LEVELS). sublist name invalid_level_message)"
proof -
  have "map_of DIFFICULTY_LEVELS level = None"
    using assms by (simp add: map_of_eq_None_iff)
  then show ?thesis
    by (simp add: set_difficulty_level_def sublist_message del: set_map)
qed

theorem set_difficulty_level_unknown_witness:
  "''EXPERT'' \<notin> set (map fst DIFFICULTY_LEVELS)
   \<and> set_difficulty_level toy_collaborators ''EXPERT'' toy_env =
       (Inl (ValueError
          ''Invalid difficulty level, choose among dict_keys(['EASY', 'MEDIUM', 'HARD'])''),
        toy_env)
   \<and> ''EASY'' \<in> set (map fst DIFFICULTY_LEVELS)
   \<and> sublist ''EASY'' invalid_level_message
   \<and> sublist ''MEDIUM'' invalid_level_message
   \<and> sublist ''HARD'' invalid_level_message"
proof -
  have out: "''EXPERT'' \<notin> set (map fst DIFFICULTY_LEVELS)"
    by (simp add: DIFFICULTY_LEVELS_def)
  have msg: "invalid_level_message =
      ''Invalid difficulty level, choose among dict_keys(['EASY', 'MEDIUM', 'HARD'])''"
    by (simp add: invalid_level_message_def str_keys_def py_repr_def DIFFICULTY_LEVELS_def)
  have names: "set (map fst DIFFICULTY_LEVELS) = {''EASY'', ''MEDIUM'', ''HARD''}"
    by (simp add: DIFFICULTY_LEVELS_def)
  show ?thesis
    using set_difficulty_level_unknown [OF out, of toy_collaborators toy_env] out
    unfolding names by (simp add: msg [symmetric])
qed

text \<open>
  C8. \<open>configure\<close> gives every key of the overrides the overriding value, leaves every other
  key as it was, removes no key, and leaves road, vehicle, random source and step counter
  as they were.
\<close>

theorem configure_frame:
  "(\<forall>k. k \<in> dom overrides \<longrightarrow> config (configure overrides e) k = overrides k)
   \<and> (\<forall>k. k \<notin> dom overrides \<longrightarrow> config (configure overrides e) k = config e k)
   \<and> dom (config e) \<subseteq> dom (config (configure overrides e))
   \<and> road (configure overrides e) = road e
   \<and> vehicle (configure overrides e) = vehicle e
   \<and> np_random (configure overrides e) = np_random e
   \<and> steps (configure overrides e) = steps e"
  by (auto simp: configure_def map_add_def split: option.splits)

theorem configure_frame_witness:
  "''duration'' \<in> dom [''duration'' \<mapsto> PInt 5]
   \<and> config (configure [''duration'' \<mapsto> PInt 5] toy_env) ''duration'' = Some (PInt 5)
   \<and> ''lanes_count'' \<notin> dom [''duration'' \<mapsto> PInt 5]
   \<and> config (configure [''duration'' \<mapsto> PInt 5] toy_env) ''lanes_count'' = Some (PInt 2)
   \<and> dom (config toy_env) \<subseteq> dom (config (configure [''duration'' \<mapsto> PInt 5] toy_env))
   \<and> road (configure [''duration'' \<mapsto> PInt 5] toy_env) = road toy_env
   \<and> steps (configure [''duration'' \<mapsto> PInt 5] toy_env) = steps toy_env"
proof -
  have "config toy_env ''lanes_count'' = Some (PInt 2)"
    by (simp add: toy_env_def level_profile_def)
  then show ?thesis
    using configure_frame [of "[''duration'' \<mapsto> PInt 5]" toy_env] by simp
qed

subsection \<open>Building the vehicles\<close>

text \<open>
  C7 (amended). When the configured behaviour type does not resolve, \<open>reset\<close> raises the
  resolver's exception and creates no autonomous agent; by then it has replaced the road by
  a new one and appended the controlled agent to it, so the new road holds exactly the
  controlled agent. The step counter and the configuration are as before the call.
\<close>

theorem reset_unresolved_type:
  assumes "config e ''lanes_count'' = Some lanes"
    and "config e ''initial_spacing'' = Some spacing"
    and "config e ''other_vehicles_type'' = Some path"
    and "class_from_path c path = Inl err"
    and "mdp_create_random c (Road (straight_road_network c lanes)) (np_random e) 25 spacing
           = (ego, g)"
  shows "reset c e =
           (Inl err,
            e\<lparr>road := \<lparr>network = straight_road_network c lanes, vehicles = [ego]\<rparr>,
              vehicle := ego, np_random := g\<rparr>)"
  using assms by (simp add: reset_def create_road_def create_vehicles_def Road_def)

theorem reset_unresolved_type_witness:
  "config unknown_type_env ''lanes_count'' = Some (PInt 2)
   \<and> config unknown_type_env ''initial_spacing'' = Some (PInt 2)
   \<and> config unknown_type_env ''other_vehicles_type'' = Some (PStr ''no.such.Type'')
   \<and> class_from_path toy_collaborators (PStr ''no.such.Type'') = Inl ImportError
   \<and> mdp_create_random toy_collaborators
        (Road (straight_road_network toy_collaborators (PInt 2)))
        (np_random unknown_type_env) 25 (PInt 2) = (toy_ego, 1)
   \<and> reset toy_collaborators unknown_type_env =
       (Inl ImportError,
        unknown_type_env
          \<lparr>road := \<lparr>network = 2, vehicles = [toy_ego]\<rparr>, vehicle := toy_ego, np_random := 1\<rparr>)"
  using reset_unresolved_type [of unknown_type_env "PInt 2" "PInt 2" "PStr ''no.such.Type''"
      toy_collaborators ImportError toy_ego 1]
  by (simp add: unknown_type_env_def configure_def toy_env_def toy_collaborators_def
      level_profile_def Road_def)

text \<open>
  C7 as stated fails: with a behaviour type that does not resolve, the reset raises, and
  the road, new and empty when built, holds the controlled agent afterwards.
\<close>

theorem reset_unresolved_type_partial:
  "fst (reset toy_collaborators unknown_type_env) = Inl ImportError
   \<and> vehicles (Road (straight_road_network toy_collaborators (PInt 2))) = []
   \<and> vehicles (road (snd (reset toy_collaborators unknown_type_env))) = [toy_ego]"
  by (simp add: unknown_type_env_def toy_defs build_defs)

end
